theory Spec2Isabelle
  imports Main "HOL-Library.AList"
begin

section \<open>QiTlalli GCP deployment manager (deploy.py)\<close>

text \<open>
  The program sequences calls to external services: the secret store, the build service,
  the credential provider and one HTTP probe. The services are not part of the program;
  their answers are given by an environment record \<open>env\<close>, and everything the program
  does to the outside (store contents, log records, outbound calls, random draws) is kept
  in a \<open>world\<close> record that every operation takes and returns.
  Python exceptions are values: an operation that can raise returns \<open>exception + 'a\<close>
  together with the world as it was when the exception left it.
\<close>

subsection \<open>Exceptions and process exit\<close>

text \<open>
  \<open>exception\<close> holds the subclasses of Python's \<open>Exception\<close> that occur: the ones the SDK
  calls raise and the plain \<open>Exception(msg)\<close> that \<open>main\<close> raises. \<open>SystemExit\<close> is not
  an \<open>Exception\<close> subclass, so \<open>except Exception\<close> does not catch it: it is a
  constructor of \<open>raised\<close> only.
\<close>

datatype exception =
    DefaultCredentialsError
  | NotFound string
  | AlreadyExists string
  | OtherError string
  | PyException string

datatype raised = Uncaught exception | SystemExit int

text \<open>The exit status of the interpreter: 0 on return, the code of \<open>sys.exit\<close>, 1 after
  a traceback of an uncaught exception.\<close>

definition exit_status :: "raised + unit \<Rightarrow> int" where
  "exit_status r = (case r of Inr u \<Rightarrow> 0 | Inl (SystemExit n) \<Rightarrow> n | Inl (Uncaught e) \<Rightarrow> 1)"

subsection \<open>Configuration\<close>

record GCPConfig =
  project_id :: string
  region :: string
  service_name :: string
  db_instance_name :: string
  service_account :: string

text \<open>The dataclass constructor with its defaults, as \<open>main\<close> calls it.\<close>

definition GCPConfig_init :: "string \<Rightarrow> string \<Rightarrow> GCPConfig" where
  "GCPConfig_init p r =
     \<lparr>project_id = p, region = r, service_name = ''qitlalli-odoo'',
      db_instance_name = ''qitlalli-db'', service_account = ''qitlalli-service-account''\<rparr>"

subsection \<open>Log records and outbound calls\<close>

datatype level = INFO | WARNING | ERROR

datatype message =
    AuthVerified
  | NotAuthenticated
  | AuthCheckFailed exception
  | SecretExists string
  | SecretCreated string
  | SecretFailed string exception
  | ServiceAccountDone nat
  | ServiceAccountFailed exception
  | StartingBuild
  | BuildSubmitted
  | BuildFailed exception
  | ServiceUrlFailed exception
  | WaitingForService
  | HealthPassed
  | HealthFailedStatus int
  | HealthFailed exception
  | Starting string string
  | SettingUp
  | CreatedCount nat
  | ManagedCount nat
  | StartingDeployment
  | ServiceUrl string
  | DeploymentCompleted
  | DeploymentHealthWarning
  | DeploymentFailed exception

record build_step =
  step_name :: string
  step_args :: "string list"

record build =
  steps :: "build_step list"
  images :: "string list"

datatype api_call =
    AuthDefault
  | ClientsInit
  | ListProjects
  | GetSecret string
  | CreateSecret string string
  | AddSecretVersion string string
  | ImportIam
  | CreateBuild string build
  | Sleep nat
  | HttpGet string nat

subsection \<open>The environment and the world\<close>

text \<open>
  \<open>env\<close>: what the services answer. A fault is the exception a call raises (\<open>None\<close>: the
  call goes through). \<open>auth_probe\<close> is the outcome of the three lines that
  \<open>check_authentication\<close> tries (import of the resource manager, client, listing);
  \<open>iam_imports\<close> the outcome of the two imports that \<open>setup_service_account\<close> tries.
  \<open>http_get url timeout\<close> is the status code of the response, or the exception of
  \<open>requests.get\<close>.
\<close>

record env =
  auth_default :: "exception option"
  clients_init :: "exception option"
  auth_probe :: "exception option"
  get_secret_fault :: "string \<Rightarrow> exception option"
  create_secret_fault :: "string \<Rightarrow> string \<Rightarrow> exception option"
  add_version_fault :: "string \<Rightarrow> string \<Rightarrow> exception option"
  iam_imports :: "exception option"
  create_build_fault :: "string \<Rightarrow> build \<Rightarrow> exception option"
  http_get :: "string \<Rightarrow> nat \<Rightarrow> exception + int"

text \<open>
  \<open>world\<close>: the secret store (resource name to the payloads of its versions, oldest
  first), the operating system's entropy as a sequence of draws with the number already
  consumed, the log, and the trace of outbound calls.
\<close>

record world =
  store :: "string \<rightharpoonup> string list"
  entropy :: "nat \<Rightarrow> nat"
  drawn :: nat
  logged :: "(level \<times> message) list"
  trace :: "api_call list"

definition logger_info :: "message \<Rightarrow> world \<Rightarrow> world" where
  "logger_info m w = w\<lparr>logged := logged w @ [(INFO, m)]\<rparr>"

definition logger_warning :: "message \<Rightarrow> world \<Rightarrow> world" where
  "logger_warning m w = w\<lparr>logged := logged w @ [(WARNING, m)]\<rparr>"

definition logger_error :: "message \<Rightarrow> world \<Rightarrow> world" where
  "logger_error m w = w\<lparr>logged := logged w @ [(ERROR, m)]\<rparr>"

definition called :: "api_call \<Rightarrow> world \<Rightarrow> world" where
  "called c w = w\<lparr>trace := trace w @ [c]\<rparr>"

subsection \<open>The secret store client\<close>

text \<open>\<open>SecretManagerServiceClient.secret_path\<close>.\<close>

definition secret_path :: "string \<Rightarrow> string \<Rightarrow> string" where
  "secret_path project secret = ''projects/'' @ project @ ''/secrets/'' @ secret"

text \<open>
  The three calls of the client that the program uses. \<open>get_secret\<close> raises when the
  resource is absent; \<open>create_secret\<close> raises when it is present, and otherwise makes a
  secret with no version and answers its resource name; \<open>add_secret_version\<close> appends a
  payload. Each can also raise the fault the environment gives it.
\<close>

definition get_secret :: "env \<Rightarrow> string \<Rightarrow> world \<Rightarrow> (exception + unit) \<times> world" where
  "get_secret ev name w =
     (let w1 = called (GetSecret name) w in
      case get_secret_fault ev name of
        Some e \<Rightarrow> (Inl e, w1)
      | None \<Rightarrow>
          (case store w1 name of
             None \<Rightarrow> (Inl (NotFound name), w1)
           | Some vs \<Rightarrow> (Inr (), w1)))"

definition create_secret :: "env \<Rightarrow> string \<Rightarrow> string \<Rightarrow> world \<Rightarrow> (exception + string) \<times> world" where
  "create_secret ev parent secret_id w =
     (let w1 = called (CreateSecret parent secret_id) w;
          name = parent @ ''/secrets/'' @ secret_id in
      case create_secret_fault ev parent secret_id of
        Some e \<Rightarrow> (Inl e, w1)
      | None \<Rightarrow>
          (case store w1 name of
             Some vs \<Rightarrow> (Inl (AlreadyExists name), w1)
           | None \<Rightarrow> (Inr name, w1\<lparr>store := (store w1)(name \<mapsto> [])\<rparr>)))"

definition add_secret_version :: "env \<Rightarrow> string \<Rightarrow> string \<Rightarrow> world \<Rightarrow> (exception + unit) \<times> world" where
  "add_secret_version ev parent payload w =
     (let w1 = called (AddSecretVersion parent payload) w in
      case add_version_fault ev parent payload of
        Some e \<Rightarrow> (Inl e, w1)
      | None \<Rightarrow>
          (case store w1 parent of
             None \<Rightarrow> (Inl (NotFound parent), w1)
           | Some vs \<Rightarrow> (Inr (), w1\<lparr>store := (store w1)(parent \<mapsto> vs @ [payload])\<rparr>)))"

subsection \<open>Password generation\<close>

text \<open>\<open>string.ascii_letters\<close>, \<open>string.digits\<close> and the alphabet of the generator.\<close>

definition ascii_lowercase :: string where
  "ascii_lowercase = ''abcdefghijklmnopqrstuvwxyz''"

definition ascii_uppercase :: string where
  "ascii_uppercase = ''ABCDEFGHIJKLMNOPQRSTUVWXYZ''"

definition ascii_letters :: string where
  "ascii_letters = ascii_lowercase @ ascii_uppercase"

definition digits :: string where
  "digits = ''0123456789''"

definition alphabet :: string where
  "alphabet = ascii_letters @ digits @ ''!@#$%^&*''"

text \<open>
  \<open>secrets.choice(seq)\<close> is \<open>seq[randbelow(len(seq))]\<close>: the next draw of the entropy,
  reduced below the length. It raises \<open>IndexError\<close> on an empty sequence; the program
  calls it on \<open>alphabet\<close> only, which has 70 characters.
\<close>

definition secrets_choice :: "string \<Rightarrow> world \<Rightarrow> char \<times> world" where
  "secrets_choice seq w =
     (seq ! (entropy w (drawn w) mod length seq), w\<lparr>drawn := Suc (drawn w)\<rparr>)"

text \<open>The generator expression joined over \<open>range(k)\<close>.\<close>

fun join_choices :: "nat \<Rightarrow> world \<Rightarrow> string \<times> world" where
  "join_choices 0 w = ([], w)"
| "join_choices (Suc k) w =
     (case secrets_choice alphabet w of
        (c, w1) \<Rightarrow> (case join_choices k w1 of (cs, w2) \<Rightarrow> (c # cs, w2)))"

text \<open>\<open>_generate_password\<close>. \<open>range(length)\<close> is empty for \<open>length \<le> 0\<close>.\<close>

definition generate_password :: "int \<Rightarrow> world \<Rightarrow> string \<times> world" where
  "generate_password len w = join_choices (nat len) w"

subsection \<open>The manager's operations\<close>

text \<open>\<open>__init__\<close>: credential discovery, then the five service clients.\<close>

definition manager_init :: "env \<Rightarrow> GCPConfig \<Rightarrow> world \<Rightarrow> (exception + unit) \<times> world" where
  "manager_init ev config w =
     (let w1 = called AuthDefault w in
      case auth_default ev of
        Some e \<Rightarrow> (Inl e, w1)
      | None \<Rightarrow>
          (let w2 = called ClientsInit w1 in
           case clients_init ev of
             Some e \<Rightarrow> (Inl e, w2)
           | None \<Rightarrow> (Inr (), w2)))"

definition check_authentication :: "env \<Rightarrow> world \<Rightarrow> bool \<times> world" where
  "check_authentication ev w =
     (let w1 = called ListProjects w in
      case auth_probe ev of
        None \<Rightarrow> (True, logger_info AuthVerified w1)
      | Some DefaultCredentialsError \<Rightarrow> (False, logger_error NotAuthenticated w1)
      | Some e \<Rightarrow> (False, logger_error (AuthCheckFailed e) w1))"

text \<open>The dictionary literal of \<open>create_secrets\<close>, in insertion order; its three
  generated values are drawn in that order.\<close>

definition secrets_config :: "world \<Rightarrow> (string \<times> string) list \<times> world" where
  "secrets_config w =
     (case generate_password 32 w of (db, w1) \<Rightarrow>
      case generate_password 24 w1 of (admin, w2) \<Rightarrow>
      case generate_password 64 w2 of (jwt, w3) \<Rightarrow>
        ([(''qitlalli-db-password'', db),
          (''qitlalli-admin-password'', admin),
          (''qitlalli-jwt-secret'', jwt),
          (''qitlalli-email-password'', ''PLACEHOLDER-UPDATE-MANUALLY''),
          (''qitlalli-whatsapp-token'', ''PLACEHOLDER-UPDATE-MANUALLY'')], w3))"

text \<open>\<open>str.encode()\<close>: UTF-8. The values are ASCII, and a \<open>char\<close> is a byte.\<close>

definition encode :: "string \<Rightarrow> string" where
  "encode s = s"

text \<open>The handler of the inner \<open>try\<close> (the bare \<open>except:\<close>): create the secret, add one
  version, log, record the value in \<open>created_secrets\<close>.\<close>

definition create_missing ::
  "env \<Rightarrow> string \<Rightarrow> string \<Rightarrow> string \<Rightarrow> string \<Rightarrow> (string \<times> string) list \<Rightarrow> world
   \<Rightarrow> (exception + (string \<times> string) list) \<times> world" where
  "create_missing ev parent secret_id secret_name secret_value created_secrets w =
     (case create_secret ev parent secret_id w of
        (Inl e, w1) \<Rightarrow> (Inl e, w1)
      | (Inr response_name, w1) \<Rightarrow>
          (case add_secret_version ev response_name (encode secret_value) w1 of
             (Inl e, w2) \<Rightarrow> (Inl e, w2)
           | (Inr u, w2) \<Rightarrow>
               (Inr (AList.update secret_name secret_value created_secrets),
                logger_info (SecretCreated secret_name) w2)))"

text \<open>One iteration of the loop: the outer \<open>try\<close> with its \<open>except Exception\<close>.\<close>

definition secret_iteration ::
  "env \<Rightarrow> GCPConfig \<Rightarrow> string \<times> string \<Rightarrow> (string \<times> string) list \<Rightarrow> world
   \<Rightarrow> (exception + (string \<times> string) list) \<times> world" where
  "secret_iteration ev config item created_secrets w =
     (let secret_name = fst item; secret_value = snd item;
          parent = ''projects/'' @ project_id config;
          secret_id = secret_name in
      case (case get_secret ev (secret_path (project_id config) secret_id) w of
              (Inr u, w1) \<Rightarrow> (Inr created_secrets, logger_info (SecretExists secret_name) w1)
            | (Inl e, w1) \<Rightarrow>
                create_missing ev parent secret_id secret_name secret_value created_secrets w1)
      of
        (Inl e, w2) \<Rightarrow> (Inr created_secrets, logger_error (SecretFailed secret_name e) w2)
      | (Inr created, w2) \<Rightarrow> (Inr created, w2))"

text \<open>The \<open>for\<close> loop over the items: an exception leaving an iteration would end it.\<close>

fun for_secrets ::
  "env \<Rightarrow> GCPConfig \<Rightarrow> (string \<times> string) list \<Rightarrow> (string \<times> string) list \<Rightarrow> world
   \<Rightarrow> (exception + (string \<times> string) list) \<times> world" where
  "for_secrets ev config [] created_secrets w = (Inr created_secrets, w)"
| "for_secrets ev config (item # items) created_secrets w =
     (case secret_iteration ev config item created_secrets w of
        (Inl e, w1) \<Rightarrow> (Inl e, w1)
      | (Inr created, w1) \<Rightarrow> for_secrets ev config items created w1)"

definition create_secrets ::
  "env \<Rightarrow> GCPConfig \<Rightarrow> world \<Rightarrow> (exception + (string \<times> string) list) \<times> world" where
  "create_secrets ev config w =
     (case secrets_config w of
        (items, w1) \<Rightarrow> for_secrets ev config items [] w1)"

definition required_roles :: "string list" where
  "required_roles =
     [''roles/secretmanager.secretAccessor'', ''roles/cloudsql.client'',
      ''roles/logging.logWriter'', ''roles/monitoring.metricWriter'', ''roles/run.invoker'']"

definition setup_service_account :: "env \<Rightarrow> world \<Rightarrow> bool \<times> world" where
  "setup_service_account ev w =
     (let w1 = called ImportIam w in
      case iam_imports ev of
        Some e \<Rightarrow> (False, logger_error (ServiceAccountFailed e) w1)
      | None \<Rightarrow> (True, logger_info (ServiceAccountDone (length required_roles)) w1))"

definition image_tag :: "GCPConfig \<Rightarrow> string" where
  "image_tag config = ''gcr.io/'' @ project_id config @ ''/'' @ service_name config @ '':latest''"

definition build_config :: "GCPConfig \<Rightarrow> build" where
  "build_config config =
     \<lparr>steps =
        [\<lparr>step_name = ''gcr.io/cloud-builders/docker'',
          step_args = [''build'', ''-f'', ''gcp/Dockerfile'', ''-t'', image_tag config, ''.'']\<rparr>,
         \<lparr>step_name = ''gcr.io/cloud-builders/docker'',
          step_args = [''push'', image_tag config]\<rparr>],
      images = [image_tag config]\<rparr>"

definition build_and_deploy :: "env \<Rightarrow> GCPConfig \<Rightarrow> world \<Rightarrow> bool \<times> world" where
  "build_and_deploy ev config w =
     (let w1 = logger_info StartingBuild w;
          parent = ''projects/'' @ project_id config;
          w2 = called (CreateBuild parent (build_config config)) w1 in
      case create_build_fault ev parent (build_config config) of
        Some e \<Rightarrow> (False, logger_error (BuildFailed e) w2)
      | None \<Rightarrow> (True, logger_info BuildSubmitted w2))"

text \<open>\<open>get_service_url\<close>: the body of its \<open>try\<close> is one string interpolation, which
  does not raise.\<close>

definition get_service_url :: "GCPConfig \<Rightarrow> world \<Rightarrow> string option \<times> world" where
  "get_service_url config w =
     (Some (''https://'' @ service_name config @ ''-'' @ project_id config @ ''.run.app''), w)"

text \<open>\<open>run_health_check\<close>. Its two imports stand before the \<open>try\<close>; \<open>time\<close> is in
  the standard library and \<open>requests\<close> is installed with the SDK packages that the
  module imports when it is loaded, so they are taken to succeed.\<close>

definition run_health_check :: "env \<Rightarrow> string \<Rightarrow> world \<Rightarrow> (exception + bool) \<times> world" where
  "run_health_check ev service_url w =
     (let w1 = logger_info WaitingForService w;
          w2 = called (Sleep 30) w1;
          health_url = service_url @ ''/web/health'';
          w3 = called (HttpGet health_url 30) w2 in
      case (case http_get ev health_url 30 of
              Inl e \<Rightarrow> (Inl e, w3)
            | Inr status_code \<Rightarrow>
                if status_code = 200 then (Inr True, logger_info HealthPassed w3)
                else (Inr False, logger_error (HealthFailedStatus status_code) w3))
      of
        (Inl e, w4) \<Rightarrow> (Inr False, logger_error (HealthFailed e) w4)
      | (Inr b, w4) \<Rightarrow> (Inr b, w4))"

subsection \<open>The command line and \<open>main\<close>\<close>

text \<open>
  The command line as the options it gives (\<open>None\<close>: the option is absent), and the
  three \<open>add_argument\<close> declarations: \<open>--project-id\<close> is required, \<open>--region\<close> and
  \<open>--action\<close> have defaults, \<open>--action\<close> has choices. \<open>parser.error\<close> exits with
  status 2.
\<close>

record cli =
  opt_project_id :: "string option"
  opt_region :: "string option"
  opt_action :: "string option"

record args =
  args_project_id :: string
  args_region :: string
  args_action :: string

definition action_choices :: "string list" where
  "action_choices = [''setup'', ''deploy'', ''secrets'']"

definition parse_args :: "cli \<Rightarrow> raised + args" where
  "parse_args argv =
     (case opt_project_id argv of
        None \<Rightarrow> Inl (SystemExit 2)
      | Some p \<Rightarrow>
          (let r = (case opt_region argv of None \<Rightarrow> ''us-central1'' | Some r \<Rightarrow> r) in
           case opt_action argv of
             None \<Rightarrow> Inr \<lparr>args_project_id = p, args_region = r, args_action = ''deploy''\<rparr>
           | Some a \<Rightarrow>
               if a \<in> set action_choices
               then Inr \<lparr>args_project_id = p, args_region = r, args_action = a\<rparr>
               else Inl (SystemExit 2)))"

text \<open>The body of the \<open>try\<close> of \<open>main\<close>: the three actions.\<close>

definition main_try_body :: "env \<Rightarrow> GCPConfig \<Rightarrow> string \<Rightarrow> world \<Rightarrow> (exception + unit) \<times> world" where
  "main_try_body ev config action w =
     (if action = ''setup'' then
        (let w1 = logger_info SettingUp w in
         case setup_service_account ev w1 of
           (ok, w2) \<Rightarrow>
             if \<not> ok then (Inl (PyException ''Service account setup failed''), w2)
             else
               (case create_secrets ev config w2 of
                  (Inl e, w3) \<Rightarrow> (Inl e, w3)
                | (Inr secrets, w3) \<Rightarrow> (Inr (), logger_info (CreatedCount (length secrets)) w3)))
      else if action = ''secrets'' then
        (case create_secrets ev config w of
           (Inl e, w1) \<Rightarrow> (Inl e, w1)
         | (Inr secrets, w1) \<Rightarrow> (Inr (), logger_info (ManagedCount (length secrets)) w1))
      else if action = ''deploy'' then
        (let w1 = logger_info StartingDeployment w in
         case build_and_deploy ev config w1 of
           (ok, w2) \<Rightarrow>
             if \<not> ok then (Inl (PyException ''Build and deployment failed''), w2)
             else
               (case get_service_url config w2 of
                  (None, w3) \<Rightarrow> (Inr (), w3)
                | (Some service_url, w3) \<Rightarrow>
                    if service_url = [] then (Inr (), w3)
                    else
                      (let w4 = logger_info (ServiceUrl service_url) w3 in
                       case run_health_check ev service_url w4 of
                         (Inl e, w5) \<Rightarrow> (Inl e, w5)
                       | (Inr healthy, w5) \<Rightarrow>
                           if healthy then (Inr (), logger_info DeploymentCompleted w5)
                           else (Inr (), logger_warning DeploymentHealthWarning w5))))
      else (Inr (), w))"

definition main :: "env \<Rightarrow> cli \<Rightarrow> world \<Rightarrow> (raised + unit) \<times> world" where
  "main ev argv w =
     (case parse_args argv of
        Inl r \<Rightarrow> (Inl r, w)
      | Inr a \<Rightarrow>
          (let config = GCPConfig_init (args_project_id a) (args_region a) in
           case manager_init ev config w of
             (Inl e, w1) \<Rightarrow> (Inl (Uncaught e), w1)
           | (Inr u, w1) \<Rightarrow>
               (case check_authentication ev w1 of
                  (authenticated, w2) \<Rightarrow>
                    if \<not> authenticated then (Inl (SystemExit 1), w2)
                    else
                      (let w3 = logger_info (Starting (args_action a) (project_id config)) w2 in
                       case main_try_body ev config (args_action a) w3 of
                         (Inl e, w4) \<Rightarrow> (Inl (SystemExit 1), logger_error (DeploymentFailed e) w4)
                       | (Inr u, w4) \<Rightarrow> (Inr (), w4)))))"

section \<open>Properties\<close>

subsection \<open>Notions used to state them\<close>

text \<open>The five secret names: the keys of the dictionary literal of \<open>create_secrets\<close>
  (lemma \<open>secrets_config_keys\<close> below).\<close>

definition required_secrets :: "string list" where
  "required_secrets =
     [''qitlalli-db-password'', ''qitlalli-admin-password'', ''qitlalli-jwt-secret'',
      ''qitlalli-email-password'', ''qitlalli-whatsapp-token'']"

text \<open>The resource names that a trace asks the secret store for with \<open>get_secret\<close>,
  in order: an iteration of the loop starts with this call.\<close>

fun attempted :: "api_call list \<Rightarrow> string list" where
  "attempted [] = []"
| "attempted (GetSecret p # cs) = p # attempted cs"
| "attempted (c # cs) = attempted cs"

text \<open>
  What one run did about one item \<open>(name, value)\<close>, in terms of what the secret store
  answers (\<open>ev\<close>), the store before (\<open>st\<close>) and after (\<open>st'\<close>), the returned mapping
  \<open>cr\<close> and the item's log record \<open>r\<close>. Exactly one of three cases applies, and which
  one is decided by the store's answers:
  \<^item> \<open>get_secret\<close> answers (the secret is there and the call does not fail): the secret
    is reported as existing, is left as it was and is not returned;
  \<^item> \<open>get_secret\<close> raises because the secret is absent, and \<open>create_secret\<close> and
    \<open>add_secret_version\<close> go through: the creation is reported, the secret now has
    exactly one version, the item's value, and the name is returned with that value;
  \<^item> \<open>get_secret\<close> raises and then a call fails: \<open>create_secret\<close> raises (its fault, or
    because the secret is there after all), or \<open>add_secret_version\<close> raises. The
    exception is logged at level \<open>ERROR\<close>, no version is added and the name is not
    returned.
\<close>

definition secret_outcome ::
  "env \<Rightarrow> GCPConfig \<Rightarrow> (string \<rightharpoonup> string list) \<Rightarrow> (string \<rightharpoonup> string list)
   \<Rightarrow> (string \<times> string) list \<Rightarrow> string \<times> string \<Rightarrow> level \<times> message \<Rightarrow> bool" where
  "secret_outcome ev config st st' cr item r =
     (let n = fst item; v = snd item;
          parent = ''projects/'' @ project_id config;
          p = secret_path (project_id config) n;
          found = (get_secret_fault ev p = None \<and> st p \<noteq> None) in
        (found \<and> r = (INFO, SecretExists n) \<and> st' p = st p \<and> map_of cr n = None)
      \<or> (st p = None \<and> create_secret_fault ev parent n = None
           \<and> add_version_fault ev p (encode v) = None
           \<and> r = (INFO, SecretCreated n) \<and> st' p = Some [encode v] \<and> map_of cr n = Some v)
      \<or> (map_of cr n = None \<and> (found = False) \<and>
           ((\<exists>e. create_secret_fault ev parent n = Some e
                 \<and> r = (ERROR, SecretFailed n e) \<and> st' p = st p)
          \<or> (create_secret_fault ev parent n = None \<and> (\<exists>vs. st p = Some vs)
                 \<and> r = (ERROR, SecretFailed n (AlreadyExists p)) \<and> st' p = st p)
          \<or> (\<exists>e. create_secret_fault ev parent n = None \<and> st p = None
                 \<and> add_version_fault ev p (encode v) = Some e
                 \<and> r = (ERROR, SecretFailed n e) \<and> st' p = Some []))))"

text \<open>The log record of an item's iteration as a function of the environment and of the
  store the run starts from; the loop lemma below proves that the loop logs exactly it.\<close>

definition secret_record ::
  "env \<Rightarrow> GCPConfig \<Rightarrow> (string \<rightharpoonup> string list) \<Rightarrow> string \<times> string \<Rightarrow> level \<times> message" where
  "secret_record ev config st item =
     (let n = fst item; v = snd item;
          parent = ''projects/'' @ project_id config;
          p = secret_path (project_id config) n in
      if get_secret_fault ev p = None \<and> st p \<noteq> None then (INFO, SecretExists n)
      else
        (case create_secret_fault ev parent n of
           Some e \<Rightarrow> (ERROR, SecretFailed n e)
         | None \<Rightarrow>
             if st p \<noteq> None then (ERROR, SecretFailed n (AlreadyExists p))
             else
               (case add_version_fault ev p (encode v) of
                  Some e \<Rightarrow> (ERROR, SecretFailed n e)
                | None \<Rightarrow> (INFO, SecretCreated n))))"

text \<open>The calls that an item's iteration makes to the secret store, likewise as a
  function of the environment and of the store the run starts from: \<open>get_secret\<close>
  always; \<open>create_secret\<close> when that raised; \<open>add_secret_version\<close> when the creation
  went through.\<close>

definition secret_calls ::
  "env \<Rightarrow> GCPConfig \<Rightarrow> (string \<rightharpoonup> string list) \<Rightarrow> string \<times> string \<Rightarrow> api_call list" where
  "secret_calls ev config st item =
     (let n = fst item; v = snd item;
          parent = ''projects/'' @ project_id config;
          p = secret_path (project_id config) n in
      if get_secret_fault ev p = None \<and> st p \<noteq> None then [GetSecret p]
      else if create_secret_fault ev parent n = None \<and> st p = None
      then [GetSecret p, CreateSecret parent n, AddSecretVersion p (encode v)]
      else [GetSecret p, CreateSecret parent n])"

subsection \<open>Concrete runs\<close>

text \<open>A project with an empty secret store, services that answer every call, and
  command lines for it.\<close>

definition demo_world :: world where
  "demo_world = \<lparr>store = Map.empty, entropy = (\<lambda>i. 7 * i + 3), drawn = 0, logged = [], trace = []\<rparr>"

definition demo_env :: env where
  "demo_env =
     \<lparr>auth_default = None, clients_init = None, auth_probe = None,
      get_secret_fault = (\<lambda>p. None),
      create_secret_fault = (\<lambda>parent n. None),
      add_version_fault = (\<lambda>p v. None),
      iam_imports = None,
      create_build_fault = (\<lambda>parent b. None),
      http_get = (\<lambda>url t. Inr 200)\<rparr>"

definition demo_config :: GCPConfig where
  "demo_config = GCPConfig_init ''demo'' ''us-central1''"

text \<open>The same project with the first secret already in the store.\<close>

definition mixed_world :: world where
  "mixed_world =
     demo_world\<lparr>store := [secret_path ''demo'' ''qitlalli-db-password'' \<mapsto> [''old-value'']]\<rparr>"

text \<open>The secret store refuses to create the first secret.\<close>

definition denied_env :: env where
  "denied_env =
     demo_env\<lparr>create_secret_fault :=
       (\<lambda>parent n. if n = ''qitlalli-db-password'' then Some (OtherError ''PermissionDenied'') else None)\<rparr>"

definition demo_cli :: cli where
  "demo_cli = \<lparr>opt_project_id = Some ''demo'', opt_region = None, opt_action = Some ''deploy''\<rparr>"


text \<open>Services that fail in one place: the credential probe, the build submission, the
  health endpoint.\<close>

definition unauth_env :: env where
  "unauth_env = demo_env\<lparr>auth_probe := Some DefaultCredentialsError\<rparr>"

definition build_fails_env :: env where
  "build_fails_env = demo_env\<lparr>create_build_fault := (\<lambda>parent b. Some (OtherError ''quota''))\<rparr>"

definition unhealthy_env :: env where
  "unhealthy_env = demo_env\<lparr>http_get := (\<lambda>url t. Inr 503)\<rparr>"

subsection \<open>Password generation: properties\<close>

lemma alphabet_eq: "alphabet = ''abcdefghijklmnopqrstuvwxyzABCDEFGHIJKLMNOPQRSTUVWXYZ0123456789!@#$%^&*''"
  by (simp add: alphabet_def ascii_letters_def ascii_lowercase_def ascii_uppercase_def digits_def)

lemma alphabet_length: "length alphabet = 70"
  by (simp add: alphabet_eq)

lemma secrets_choice_member: "seq \<noteq> [] \<Longrightarrow> fst (secrets_choice seq w) \<in> set seq"
  by (simp add: secrets_choice_def)

lemma secrets_choice_world: "snd (secrets_choice seq w) = w\<lparr>drawn := Suc (drawn w)\<rparr>"
  by (simp add: secrets_choice_def)

lemma join_choices_Suc:
  "join_choices (Suc k) w =
     (fst (secrets_choice alphabet w) # fst (join_choices k (snd (secrets_choice alphabet w))),
      snd (join_choices k (snd (secrets_choice alphabet w))))"
  by (simp add: case_prod_beta)

lemma join_choices_length: "length (fst (join_choices k w)) = k"
  by (induction k arbitrary: w) (simp_all add: join_choices_Suc del: join_choices.simps(2))

lemma join_choices_set: "set (fst (join_choices k w)) \<subseteq> set alphabet"
proof (induction k arbitrary: w)
  case 0
  show ?case by simp
next
  case (Suc k)
  have ne: "alphabet \<noteq> []" using alphabet_length by auto
  show ?case
    using secrets_choice_member [OF ne, of w] Suc.IH [of "snd (secrets_choice alphabet w)"]
    by (simp add: join_choices_Suc del: join_choices.simps(2))
qed

lemma join_choices_world: "snd (join_choices k w) = w\<lparr>drawn := drawn w + k\<rparr>"
proof (induction k arbitrary: w)
  case 0
  show ?case by simp
next
  case (Suc k)
  show ?case using Suc.IH [of "w\<lparr>drawn := Suc (drawn w)\<rparr>"]
    by (simp add: join_choices_Suc secrets_choice_world del: join_choices.simps(2))
qed

lemma generate_password_length: "length (fst (generate_password n w)) = nat n"
  by (simp add: generate_password_def join_choices_length)

lemma generate_password_set: "set (fst (generate_password n w)) \<subseteq> set alphabet"
  by (simp add: generate_password_def join_choices_set)

lemma generate_password_world: "snd (generate_password n w) = w\<lparr>drawn := drawn w + nat n\<rparr>"
  by (simp add: generate_password_def join_choices_world)

lemma secrets_config_eq:
  "secrets_config w =
     ([(''qitlalli-db-password'', fst (generate_password 32 w)),
       (''qitlalli-admin-password'', fst (generate_password 24 (w\<lparr>drawn := drawn w + 32\<rparr>))),
       (''qitlalli-jwt-secret'', fst (generate_password 64 (w\<lparr>drawn := drawn w + 56\<rparr>))),
       (''qitlalli-email-password'', ''PLACEHOLDER-UPDATE-MANUALLY''),
       (''qitlalli-whatsapp-token'', ''PLACEHOLDER-UPDATE-MANUALLY'')],
      w\<lparr>drawn := drawn w + 120\<rparr>)"
proof -
  obtain db w1 where a: "generate_password 32 w = (db, w1)" by (cases "generate_password 32 w")
  obtain ad w2 where b: "generate_password 24 w1 = (ad, w2)" by (cases "generate_password 24 w1")
  obtain jw w3 where c: "generate_password 64 w2 = (jw, w3)" by (cases "generate_password 64 w2")
  have w1: "w1 = w\<lparr>drawn := drawn w + 32\<rparr>" using generate_password_world [of 32 w] a by simp
  have w2: "w2 = w\<lparr>drawn := drawn w + 56\<rparr>" using generate_password_world [of 24 w1] b w1 by simp
  have w3: "w3 = w\<lparr>drawn := drawn w + 120\<rparr>" using generate_password_world [of 64 w2] c w2 by simp
  show ?thesis using a b c w1 w2 w3 by (simp add: secrets_config_def)
qed

text \<open>
  C2. The generator returns as many characters as \<open>range(length)\<close> has elements, that
  is \<open>length\<close> of them for every length that is a count (none for a negative argument),
  each from the alphabet of the 26 lower-case and 26 upper-case ASCII letters, the ten
  digits and the eight punctuation characters. In \<open>create_secrets\<close> the database
  password is generated with length 32 and the JWT secret with length 64.
\<close>

theorem generate_password_length_and_alphabet:
  "length (fst (generate_password n w)) = nat n
   \<and> (0 \<le> n \<longrightarrow> int (length (fst (generate_password n w))) = n)
   \<and> set (fst (generate_password n w)) \<subseteq> set alphabet
   \<and> alphabet = ''abcdefghijklmnopqrstuvwxyzABCDEFGHIJKLMNOPQRSTUVWXYZ0123456789!@#$%^&*''
   \<and> (\<exists>db admin jwt.
         fst (secrets_config w) =
           [(''qitlalli-db-password'', db), (''qitlalli-admin-password'', admin),
            (''qitlalli-jwt-secret'', jwt),
            (''qitlalli-email-password'', ''PLACEHOLDER-UPDATE-MANUALLY''),
            (''qitlalli-whatsapp-token'', ''PLACEHOLDER-UPDATE-MANUALLY'')]
       \<and> db = fst (generate_password 32 w) \<and> length db = 32 \<and> set db \<subseteq> set alphabet
       \<and> jwt = fst (generate_password 64 (w\<lparr>drawn := drawn w + 56\<rparr>)) \<and> length jwt = 64
       \<and> set jwt \<subseteq> set alphabet)"
  by (simp add: generate_password_length generate_password_set alphabet_eq [symmetric]
        secrets_config_eq)

theorem generate_password_length_and_alphabet_witness:
  "(0::int) \<le> 32 \<and> int (length (fst (generate_password 32 demo_world))) = 32
   \<and> length (fst (generate_password 64 demo_world)) = 64"
  using generate_password_length_and_alphabet [of 32 demo_world]
    generate_password_length_and_alphabet [of 64 demo_world]
  by simp

subsection \<open>The health check\<close>

text \<open>
  C3. For every URL and every answer of the network, \<open>run_health_check\<close> returns a
  boolean and never raises; it sleeps once and issues one GET, to the URL followed by
  \<open>/web/health\<close> with a timeout of 30 seconds; the boolean is true exactly when the answer
  is a response with status 200, so any other status and any exception of the request
  give false.
\<close>

theorem run_health_check_iff_200:
  "\<exists>b. fst (run_health_check ev url w) = Inr b
       \<and> (b \<longleftrightarrow> http_get ev (url @ ''/web/health'') 30 = Inr 200)
       \<and> trace (snd (run_health_check ev url w))
           = trace w @ [Sleep 30, HttpGet (url @ ''/web/health'') 30]"
  by (cases "http_get ev (url @ ''/web/health'') 30")
     (auto simp: run_health_check_def Let_def called_def logger_info_def logger_error_def)

subsection \<open>The service URL\<close>

text \<open>
  C9. \<open>get_service_url\<close> depends on the project id and the service name only: two
  configurations that agree on both get the same URL, whatever their other fields and
  whatever the world; and the call leaves the world as it is (no log record, no outbound
  call).
\<close>

theorem get_service_url_pure:
  "project_id c1 = project_id c2 \<Longrightarrow> service_name c1 = service_name c2 \<Longrightarrow>
     fst (get_service_url c1 w1) = fst (get_service_url c2 w2)
   \<and> snd (get_service_url c1 w1) = w1 \<and> snd (get_service_url c2 w2) = w2"
  by (simp add: get_service_url_def)

theorem get_service_url_pure_witness:
  "fst (get_service_url (demo_config\<lparr>region := ''europe-west1'', db_instance_name := ''other''\<rparr>) demo_world)
     = fst (get_service_url demo_config (demo_world\<lparr>drawn := 5\<rparr>))
   \<and> fst (get_service_url demo_config demo_world) = Some ''https://qitlalli-odoo-demo.run.app''"
proof -
  have "fst (get_service_url demo_config demo_world) = Some ''https://qitlalli-odoo-demo.run.app''"
    by (simp add: get_service_url_def demo_config_def GCPConfig_init_def)
  then show ?thesis
    using get_service_url_pure
      [of "demo_config\<lparr>region := ''europe-west1'', db_instance_name := ''other''\<rparr>" demo_config
          demo_world "demo_world\<lparr>drawn := 5\<rparr>"]
    by simp
qed

subsection \<open>Secret provisioning\<close>

lemma attempted_append: "attempted (xs @ ys) = attempted xs @ attempted ys"
  by (induction xs rule: attempted.induct) simp_all

lemma secret_path_parent: "secret_path pid n = (''projects/'' @ pid) @ ''/secrets/'' @ n"
  by (simp add: secret_path_def)

lemma secret_path_inj: "secret_path pid a = secret_path pid b \<longleftrightarrow> a = b"
  by (simp add: secret_path_def)

lemma secret_record_cong:
  "st2 (secret_path (project_id config) (fst item)) = st (secret_path (project_id config) (fst item))
   \<Longrightarrow> secret_record ev config st2 item = secret_record ev config st item"
  by (auto simp: secret_record_def Let_def)

lemma secret_calls_cong:
  "st2 (secret_path (project_id config) (fst item)) = st (secret_path (project_id config) (fst item))
   \<Longrightarrow> secret_calls ev config st2 item = secret_calls ev config st item"
  by (auto simp: secret_calls_def Let_def)

lemma update_fresh: "map_of al k = None \<Longrightarrow> AList.update k v al = al @ [(k, v)]"
  by (induction al) (auto split: if_splits)

lemma secret_iteration_step:
  assumes fresh: "map_of cr0 n = None"
  shows "\<exists>cr1 w1 r.
           secret_iteration ev config (n, v) cr0 w = (Inr cr1, w1)
         \<and> logged w1 = logged w @ [r]
         \<and> r = secret_record ev config (store w) (n, v)
         \<and> cr1 = (if r = (INFO, SecretCreated n) then cr0 @ [(n, v)] else cr0)
         \<and> secret_outcome ev config (store w) (store w1) cr1 (n, v) r
         \<and> (\<forall>q. q \<noteq> secret_path (project_id config) n \<longrightarrow> store w1 q = store w q)
         \<and> (\<forall>k. k \<noteq> n \<longrightarrow> map_of cr1 k = map_of cr0 k)
         \<and> attempted (trace w1) = attempted (trace w) @ [secret_path (project_id config) n]
         \<and> trace w1 = trace w @ secret_calls ev config (store w) (n, v)
         \<and> entropy w1 = entropy w \<and> drawn w1 = drawn w"
  using fresh
  by (auto simp: secret_iteration_def create_missing_def get_secret_def create_secret_def
        add_secret_version_def Let_def called_def logger_info_def logger_error_def
        secret_outcome_def secret_path_def attempted_append secret_record_def secret_calls_def
        AList.update_conv' update_fresh map_add_def
      split: option.splits)

lemma secret_outcome_cong:
  assumes "secret_outcome ev config st st' cr item r"
    and "st2 (secret_path (project_id config) (fst item)) = st (secret_path (project_id config) (fst item))"
    and "st2' (secret_path (project_id config) (fst item)) = st' (secret_path (project_id config) (fst item))"
    and "map_of cr2 (fst item) = map_of cr (fst item)"
  shows "secret_outcome ev config st2 st2' cr2 item r"
  using assms unfolding secret_outcome_def Let_def by simp

lemma for_secrets_loop:
  assumes "distinct (map fst items)" and "\<forall>k \<in> fst ` set items. map_of cr0 k = None"
  shows "\<exists>cr w' ms.
           for_secrets ev config items cr0 w = (Inr cr, w')
         \<and> logged w' = logged w @ ms
         \<and> ms = map (secret_record ev config (store w)) items
         \<and> cr = cr0 @ filter (\<lambda>i. secret_record ev config (store w) i = (INFO, SecretCreated (fst i))) items
         \<and> list_all2 (secret_outcome ev config (store w) (store w') cr) items ms
         \<and> (\<forall>q. q \<notin> secret_path (project_id config) ` fst ` set items \<longrightarrow> store w' q = store w q)
         \<and> (\<forall>k. k \<notin> fst ` set items \<longrightarrow> map_of cr k = map_of cr0 k)
         \<and> attempted (trace w') = attempted (trace w) @ map (secret_path (project_id config)) (map fst items)
         \<and> trace w' = trace w @ concat (map (secret_calls ev config (store w)) items)
         \<and> entropy w' = entropy w \<and> drawn w' = drawn w"
  using assms
proof (induction items arbitrary: cr0 w)
  case Nil
  show ?case by simp
next
  case (Cons item items)
  let ?pid = "project_id config"
  obtain n v where item: "item = (n, v)" by (cases item)
  have n_new: "n \<notin> fst ` set items" using Cons.prems(1) item by simp
  have fresh: "map_of cr0 n = None" using Cons.prems(2) item by simp
  from secret_iteration_step [OF fresh, of ev config v w]
  obtain cr1 w1 r where
    it: "secret_iteration ev config (n, v) cr0 w = (Inr cr1, w1)"
    and log1: "logged w1 = logged w @ [r]"
    and rec1: "r = secret_record ev config (store w) (n, v)"
    and cr1: "cr1 = (if r = (INFO, SecretCreated n) then cr0 @ [(n, v)] else cr0)"
    and out1: "secret_outcome ev config (store w) (store w1) cr1 (n, v) r"
    and frame1: "\<forall>q. q \<noteq> secret_path ?pid n \<longrightarrow> store w1 q = store w q"
    and keys1: "\<forall>k. k \<noteq> n \<longrightarrow> map_of cr1 k = map_of cr0 k"
    and att1: "attempted (trace w1) = attempted (trace w) @ [secret_path ?pid n]"
    and tr1: "trace w1 = trace w @ secret_calls ev config (store w) (n, v)"
    and rng1: "entropy w1 = entropy w" "drawn w1 = drawn w"
    by blast
  have d: "distinct (map fst items)" using Cons.prems(1) by simp
  have fresh1: "\<forall>k \<in> fst ` set items. map_of cr1 k = None"
  proof
    fix k
    assume k: "k \<in> fst ` set items"
    then have "k \<noteq> n" using n_new by force
    then have "map_of cr1 k = map_of cr0 k" using keys1 by simp
    moreover have "map_of cr0 k = None" using Cons.prems(2) k by auto
    ultimately show "map_of cr1 k = None" by simp
  qed
  from Cons.IH [OF d fresh1, of w1]
  obtain cr w' ms where
    loop: "for_secrets ev config items cr1 w1 = (Inr cr, w')"
    and log2: "logged w' = logged w1 @ ms"
    and rec2: "ms = map (secret_record ev config (store w1)) items"
    and cr2: "cr = cr1 @ filter (\<lambda>i. secret_record ev config (store w1) i = (INFO, SecretCreated (fst i))) items"
    and out2: "list_all2 (secret_outcome ev config (store w1) (store w') cr) items ms"
    and frame2: "\<forall>q. q \<notin> secret_path ?pid ` fst ` set items \<longrightarrow> store w' q = store w1 q"
    and keys2: "\<forall>k. k \<notin> fst ` set items \<longrightarrow> map_of cr k = map_of cr1 k"
    and att2: "attempted (trace w') = attempted (trace w1) @ map (secret_path ?pid) (map fst items)"
    and tr2: "trace w' = trace w1 @ concat (map (secret_calls ev config (store w1)) items)"
    and rng2: "entropy w' = entropy w1" "drawn w' = drawn w1"
    by blast
  have p_new: "secret_path ?pid n \<notin> secret_path ?pid ` fst ` set items"
    using n_new by (force simp: secret_path_inj)
  have head: "secret_outcome ev config (store w) (store w') cr (n, v) r"
    using secret_outcome_cong [OF out1, of "store w" "store w'" cr] frame2 p_new keys2 n_new
    by simp
  have tail: "list_all2 (secret_outcome ev config (store w) (store w') cr) items ms"
  proof (rule list.rel_mono_strong [OF out2])
    fix x y
    assume x: "x \<in> set items" and o: "secret_outcome ev config (store w1) (store w') cr x y"
    have "fst x \<noteq> n" using x n_new by force
    then have "secret_path ?pid (fst x) \<noteq> secret_path ?pid n" by (simp add: secret_path_inj)
    then have "store w (secret_path ?pid (fst x)) = store w1 (secret_path ?pid (fst x))"
      using frame1 by simp
    then show "secret_outcome ev config (store w) (store w') cr x y"
      using secret_outcome_cong [OF o, of "store w" "store w'" cr] by simp
  qed
  have same: "\<forall>x \<in> set items. secret_record ev config (store w1) x = secret_record ev config (store w) x"
  proof
    fix x
    assume x: "x \<in> set items"
    have "fst x \<noteq> n" using x n_new by force
    then have "secret_path ?pid (fst x) \<noteq> secret_path ?pid n" by (simp add: secret_path_inj)
    then have "store w1 (secret_path ?pid (fst x)) = store w (secret_path ?pid (fst x))"
      using frame1 by simp
    then show "secret_record ev config (store w1) x = secret_record ev config (store w) x"
      by (rule secret_record_cong)
  qed
  have samec: "\<forall>x \<in> set items. secret_calls ev config (store w1) x = secret_calls ev config (store w) x"
  proof
    fix x
    assume x: "x \<in> set items"
    have "fst x \<noteq> n" using x n_new by force
    then have "secret_path ?pid (fst x) \<noteq> secret_path ?pid n" by (simp add: secret_path_inj)
    then have "store w1 (secret_path ?pid (fst x)) = store w (secret_path ?pid (fst x))"
      using frame1 by simp
    then show "secret_calls ev config (store w1) x = secret_calls ev config (store w) x"
      by (rule secret_calls_cong)
  qed
  have calls: "map (secret_calls ev config (store w1)) items = map (secret_calls ev config (store w)) items"
    using samec by (simp cong: map_cong)
  have trs: "trace w' = trace w @ concat (map (secret_calls ev config (store w)) (item # items))"
    using tr1 tr2 item by (simp add: calls)
  have recs: "r # ms = map (secret_record ev config (store w)) (item # items)"
    using rec1 rec2 same item by simp
  have filt: "filter (\<lambda>i. secret_record ev config (store w1) i = (INFO, SecretCreated (fst i))) items
            = filter (\<lambda>i. secret_record ev config (store w) i = (INFO, SecretCreated (fst i))) items"
    using same by (simp cong: filter_cong)
  have crs: "cr = cr0 @ filter (\<lambda>i. secret_record ev config (store w) i = (INFO, SecretCreated (fst i))) (item # items)"
    using cr1 cr2 rec1 filt item by simp
  have run: "for_secrets ev config (item # items) cr0 w = (Inr cr, w')"
    using it loop item by simp
  have logs: "logged w' = logged w @ (r # ms)" using log1 log2 by simp
  have outs: "list_all2 (secret_outcome ev config (store w) (store w') cr) (item # items) (r # ms)"
    using head tail item by simp
  have frame: "\<forall>q. q \<notin> secret_path ?pid ` fst ` set (item # items) \<longrightarrow> store w' q = store w q"
    using frame1 frame2 item by simp
  have keys: "\<forall>k. k \<notin> fst ` set (item # items) \<longrightarrow> map_of cr k = map_of cr0 k"
    using keys1 keys2 item by simp
  have att: "attempted (trace w') = attempted (trace w) @ map (secret_path ?pid) (map fst (item # items))"
    using att1 att2 item by simp
  show ?case using run logs recs crs outs frame keys att trs rng1 rng2 by auto
qed

lemma secrets_config_keys: "map fst (fst (secrets_config w)) = required_secrets"
  by (simp add: secrets_config_eq required_secrets_def)

lemma secrets_config_distinct: "distinct (map fst (fst (secrets_config w)))"
  by (simp add: secrets_config_keys required_secrets_def)

lemma secrets_config_nonempty: "\<forall>item \<in> set (fst (secrets_config w)). snd item \<noteq> []"
proof -
  have "length (fst (generate_password n w')) = 0 \<longleftrightarrow> nat n = 0" for n w'
    by (simp only: generate_password_length)
  then have "fst (generate_password n w') = [] \<longleftrightarrow> nat n = 0" for n w'
    by simp
  then show ?thesis by (simp add: secrets_config_eq)
qed

lemma create_secrets_run:
  "\<exists>cr w' ms.
       create_secrets ev config w = (Inr cr, w')
     \<and> logged w' = logged w @ ms
     \<and> ms = map (secret_record ev config (store w)) (fst (secrets_config w))
     \<and> cr = filter (\<lambda>i. secret_record ev config (store w) i = (INFO, SecretCreated (fst i)))
                 (fst (secrets_config w))
     \<and> list_all2 (secret_outcome ev config (store w) (store w') cr)
                 (fst (secrets_config w)) ms
     \<and> (\<forall>q. q \<notin> secret_path (project_id config) ` set required_secrets \<longrightarrow> store w' q = store w q)
     \<and> attempted (trace w') = attempted (trace w) @ map (secret_path (project_id config)) required_secrets
     \<and> trace w' = trace w @ concat (map (secret_calls ev config (store w)) (fst (secrets_config w)))
     \<and> entropy w' = entropy w \<and> drawn w' = drawn w + 120"
proof -
  let ?items = "fst (secrets_config w)"
  let ?w1 = "w\<lparr>drawn := drawn w + 120\<rparr>"
  have cfg: "snd (secrets_config w) = ?w1" by (simp add: secrets_config_eq)
  have fresh: "\<forall>k \<in> fst ` set ?items. map_of [] k = None" by simp
  from for_secrets_loop [where w = ?w1 and ev = ev and config = config, OF secrets_config_distinct fresh]
  obtain cr w' ms where
    run: "for_secrets ev config ?items [] ?w1 = (Inr cr, w')"
    and rest: "logged w' = logged ?w1 @ ms"
      "ms = map (secret_record ev config (store ?w1)) ?items"
      "cr = [] @ filter (\<lambda>i. secret_record ev config (store ?w1) i = (INFO, SecretCreated (fst i))) ?items"
      "list_all2 (secret_outcome ev config (store ?w1) (store w') cr) ?items ms"
      "\<forall>q. q \<notin> secret_path (project_id config) ` fst ` set ?items \<longrightarrow> store w' q = store ?w1 q"
      "attempted (trace w') = attempted (trace ?w1) @ map (secret_path (project_id config)) (map fst ?items)"
      "trace w' = trace ?w1 @ concat (map (secret_calls ev config (store ?w1)) ?items)"
      "entropy w' = entropy ?w1" "drawn w' = drawn ?w1"
    by blast
  have names: "fst ` set ?items = set required_secrets"
    using secrets_config_keys [of w] by (metis set_map)
  have "create_secrets ev config w = (Inr cr, w')"
    using run cfg by (simp add: create_secrets_def case_prod_beta)
  then show ?thesis using rest names secrets_config_keys [of w] by simp
qed



text \<open>
  C1, as amended. A run of \<open>create_secrets\<close> returns a mapping and, for every one of the
  five required names, does exactly one of three things, decided by what the secret
  store answers (\<open>secret_outcome\<close>): when the secret is found, it reports the secret as
  already existing and leaves it as it was; when the secret is absent and the store
  accepts the two calls, it creates the secret, adds exactly one version holding the
  item's value, which is never empty, and returns the name with that value; when a call
  of the store fails for it, the failure is logged with its exception, no version is
  added and the name is not returned. The log has the one record per name that
  \<open>secret_record\<close> gives, the calls to the store are the ones \<open>secret_calls\<close> gives (for
  an existing secret the lookup only; one creation and one version for a created one),
  and the returned mapping is, in order, exactly the items whose secret the run created
  and gave a version. Nothing else in the store changes, and the run draws its 120
  random characters. On a run where none of the five exists and no call of the store
  fails, the mapping has all five entries.
\<close>

theorem create_secrets_outcomes:
  "\<exists>created w' ms.
       create_secrets ev config w = (Inr created, w')
     \<and> map fst (fst (secrets_config w)) = required_secrets
     \<and> (\<forall>item \<in> set (fst (secrets_config w)). snd item \<noteq> [])
     \<and> logged w' = logged w @ ms
     \<and> ms = map (secret_record ev config (store w)) (fst (secrets_config w))
     \<and> list_all2 (secret_outcome ev config (store w) (store w') created)
          (fst (secrets_config w)) ms
     \<and> created = filter (\<lambda>i. secret_record ev config (store w) i = (INFO, SecretCreated (fst i)))
                    (fst (secrets_config w))
     \<and> set created \<subseteq> set (fst (secrets_config w))
     \<and> distinct (map fst created)
     \<and> trace w' = trace w @ concat (map (secret_calls ev config (store w)) (fst (secrets_config w)))
     \<and> (\<forall>q. q \<notin> secret_path (project_id config) ` set required_secrets \<longrightarrow> store w' q = store w q)
     \<and> entropy w' = entropy w \<and> drawn w' = drawn w + 120
     \<and> ((\<forall>n \<in> set required_secrets.
             store w (secret_path (project_id config) n) = None
           \<and> create_secret_fault ev (''projects/'' @ project_id config) n = None
           \<and> (\<forall>v. add_version_fault ev (secret_path (project_id config) n) v = None))
          \<longrightarrow> created = fst (secrets_config w) \<and> length created = 5)"
proof -
  let ?items = "fst (secrets_config w)"
  let ?made = "\<lambda>i. secret_record ev config (store w) i = (INFO, SecretCreated (fst i))"
  from create_secrets_run [of ev config w]
  obtain cr w' ms where
    run: "create_secrets ev config w = (Inr cr, w')"
    and log: "logged w' = logged w @ ms"
    and rec: "ms = map (secret_record ev config (store w)) ?items"
    and cr: "cr = filter ?made ?items"
    and out: "list_all2 (secret_outcome ev config (store w) (store w') cr) ?items ms"
    and frame: "\<forall>q. q \<notin> secret_path (project_id config) ` set required_secrets \<longrightarrow> store w' q = store w q"
    and tr: "trace w' = trace w @ concat (map (secret_calls ev config (store w)) ?items)"
    and rng: "entropy w' = entropy w" "drawn w' = drawn w + 120"
    by blast
  have sub: "set cr \<subseteq> set ?items" using cr by auto
  have dist: "distinct (map fst cr)"
    unfolding cr by (rule distinct_map_filter) (rule secrets_config_distinct)
  have all: "cr = ?items \<and> length cr = 5"
    if h: "\<forall>n \<in> set required_secrets.
             store w (secret_path (project_id config) n) = None
           \<and> create_secret_fault ev (''projects/'' @ project_id config) n = None
           \<and> (\<forall>v. add_version_fault ev (secret_path (project_id config) n) v = None)"
  proof -
    have "?made i" if i: "i \<in> set ?items" for i
    proof -
      have "fst i \<in> set required_secrets"
        using i secrets_config_keys [of w] by (metis image_eqI set_map)
      then show ?thesis using h by (simp add: secret_record_def Let_def)
    qed
    then have "cr = ?items" using cr by simp
    moreover have "length ?items = 5"
      by (simp add: secrets_config_eq)
    ultimately show ?thesis by simp
  qed
  have keys: "map fst ?items = required_secrets" by (rule secrets_config_keys)
  have nonempty: "\<forall>item \<in> set ?items. snd item \<noteq> []" by (rule secrets_config_nonempty)
  show ?thesis
    using run keys nonempty log rec out cr sub dist tr frame rng all
    by blast
qed

theorem create_secrets_outcomes_witness:
  "(\<exists>created w'. create_secrets demo_env demo_config demo_world = (Inr created, w')
      \<and> created = fst (secrets_config demo_world) \<and> length created = 5)
   \<and> (\<exists>created w'. create_secrets demo_env demo_config mixed_world = (Inr created, w')
      \<and> map fst created =
          [''qitlalli-admin-password'', ''qitlalli-jwt-secret'',
           ''qitlalli-email-password'', ''qitlalli-whatsapp-token'']
      \<and> hd (logged w') = (INFO, SecretExists ''qitlalli-db-password'')
      \<and> store w' (secret_path ''demo'' ''qitlalli-db-password'') = Some [''old-value''])"
proof
  show "\<exists>created w'. create_secrets demo_env demo_config demo_world = (Inr created, w')
      \<and> created = fst (secrets_config demo_world) \<and> length created = 5"
    using create_secrets_outcomes [of demo_env demo_config demo_world]
    by (auto simp: demo_env_def demo_world_def)
next
  from create_secrets_outcomes [of demo_env demo_config mixed_world]
  obtain created w' ms where
    run: "create_secrets demo_env demo_config mixed_world = (Inr created, w')"
    and log: "logged w' = logged mixed_world @ ms"
    and rec: "ms = map (secret_record demo_env demo_config (store mixed_world)) (fst (secrets_config mixed_world))"
    and out: "list_all2 (secret_outcome demo_env demo_config (store mixed_world) (store w') created)
                (fst (secrets_config mixed_world)) ms"
    and cr: "created = filter (\<lambda>i. secret_record demo_env demo_config (store mixed_world) i
                                     = (INFO, SecretCreated (fst i)))
                         (fst (secrets_config mixed_world))"
    by blast
  have names: "map fst created =
          [''qitlalli-admin-password'', ''qitlalli-jwt-secret'',
           ''qitlalli-email-password'', ''qitlalli-whatsapp-token'']"
    unfolding cr
    by (simp add: secrets_config_eq secret_record_def secret_path_def mixed_world_def
          demo_world_def demo_env_def demo_config_def GCPConfig_init_def)
  have first: "hd (logged w') = (INFO, SecretExists ''qitlalli-db-password'')"
    unfolding log rec
    by (simp add: secrets_config_eq secret_record_def secret_path_def mixed_world_def
          demo_world_def demo_env_def demo_config_def GCPConfig_init_def)
  have kept: "store w' (secret_path ''demo'' ''qitlalli-db-password'') = Some [''old-value'']"
    using out unfolding rec
    by (simp add: secrets_config_eq secret_outcome_def secret_record_def secret_path_def mixed_world_def Let_def
          demo_world_def demo_env_def demo_config_def GCPConfig_init_def)
  show "\<exists>created w'. create_secrets demo_env demo_config mixed_world = (Inr created, w')
      \<and> map fst created =
          [''qitlalli-admin-password'', ''qitlalli-jwt-secret'',
           ''qitlalli-email-password'', ''qitlalli-whatsapp-token'']
      \<and> hd (logged w') = (INFO, SecretExists ''qitlalli-db-password'')
      \<and> store w' (secret_path ''demo'' ''qitlalli-db-password'') = Some [''old-value'']"
    by (rule exI [of _ created], rule exI [of _ w']) (simp add: run names first kept)
qed

text \<open>
  C1 as stated fails when the store refuses a call. Here none of the five secrets exists
  and \<open>create_secret\<close> raises for the first name: the run returns four entries, not
  five, and the first secret is neither reported as existing nor created.
\<close>

theorem create_secrets_denied_counterexample:
  "create_secrets denied_env demo_config demo_world =
     (Inr [(''qitlalli-admin-password'', fst (generate_password 24 (demo_world\<lparr>drawn := 32\<rparr>))),
           (''qitlalli-jwt-secret'', fst (generate_password 64 (demo_world\<lparr>drawn := 56\<rparr>))),
           (''qitlalli-email-password'', ''PLACEHOLDER-UPDATE-MANUALLY''),
           (''qitlalli-whatsapp-token'', ''PLACEHOLDER-UPDATE-MANUALLY'')],
      snd (create_secrets denied_env demo_config demo_world))
   \<and> logged (snd (create_secrets denied_env demo_config demo_world)) =
       [(ERROR, SecretFailed ''qitlalli-db-password'' (OtherError ''PermissionDenied'')),
        (INFO, SecretCreated ''qitlalli-admin-password''),
        (INFO, SecretCreated ''qitlalli-jwt-secret''),
        (INFO, SecretCreated ''qitlalli-email-password''),
        (INFO, SecretCreated ''qitlalli-whatsapp-token'')]
   \<and> store demo_world = Map.empty
   \<and> store (snd (create_secrets denied_env demo_config demo_world))
         (secret_path ''demo'' ''qitlalli-db-password'') = None"
  by (simp add: create_secrets_def secrets_config_eq secret_iteration_def create_missing_def
        get_secret_def create_secret_def add_secret_version_def Let_def called_def
        logger_info_def logger_error_def secret_path_def encode_def
        denied_env_def demo_env_def demo_config_def GCPConfig_init_def demo_world_def)

subsection \<open>The region\<close>

lemma secret_iteration_region:
  "secret_iteration ev (config\<lparr>region := r\<rparr>) item cr w = secret_iteration ev config item cr w"
  by (simp add: secret_iteration_def)

lemma for_secrets_region:
  "for_secrets ev (config\<lparr>region := r\<rparr>) items cr w = for_secrets ev config items cr w"
  by (induction items arbitrary: cr w)
     (simp_all add: secret_iteration_region split: prod.splits sum.splits)

lemma create_secrets_region:
  "create_secrets ev (config\<lparr>region := r\<rparr>) = create_secrets ev config"
  by (rule ext) (simp add: create_secrets_def for_secrets_region split: prod.splits)

lemma build_and_deploy_region:
  "build_and_deploy ev (config\<lparr>region := r\<rparr>) = build_and_deploy ev config"
  by (rule ext) (simp add: build_and_deploy_def build_config_def image_tag_def)

lemma get_service_url_region:
  "get_service_url (config\<lparr>region := r\<rparr>) = get_service_url config"
  by (rule ext) (simp add: get_service_url_def)

lemma main_try_body_region:
  "main_try_body ev (config\<lparr>region := r\<rparr>) = main_try_body ev config"
  unfolding main_try_body_def create_secrets_region build_and_deploy_region get_service_url_region
  by (rule refl)

lemma manager_init_region:
  "manager_init ev (config\<lparr>region := r\<rparr>) = manager_init ev config"
  by (rule ext) (simp add: manager_init_def)

lemma GCPConfig_init_region: "GCPConfig_init p r = (GCPConfig_init p r')\<lparr>region := r\<rparr>"
  by (simp add: GCPConfig_init_def)

lemma parse_args_region:
  "parse_args (argv\<lparr>opt_region := ro\<rparr>) =
     (case parse_args argv of
        Inl x \<Rightarrow> Inl x
      | Inr a \<Rightarrow> Inr (a\<lparr>args_region := (case ro of None \<Rightarrow> ''us-central1'' | Some r \<Rightarrow> r)\<rparr>))"
  by (simp add: parse_args_def Let_def split: option.splits)

lemma main_region: "main ev (argv\<lparr>opt_region := ro\<rparr>) w = main ev argv w"
proof -
  define run where "run = (\<lambda>c act.
      case manager_init ev c w of
        (Inl e, w1) \<Rightarrow> (Inl (Uncaught e), w1)
      | (Inr u, w1) \<Rightarrow>
          (case check_authentication ev w1 of
             (authenticated, w2) \<Rightarrow>
               if \<not> authenticated then (Inl (SystemExit 1), w2)
               else
                 (case main_try_body ev c act (logger_info (Starting act (project_id c)) w2) of
                    (Inl e, w4) \<Rightarrow> (Inl (SystemExit 1), logger_error (DeploymentFailed e) w4)
                  | (Inr u, w4) \<Rightarrow> (Inr (), w4))))"
  have main_eq: "main ev v w =
      (case parse_args v of
         Inl x \<Rightarrow> (Inl x, w)
       | Inr b \<Rightarrow> run (GCPConfig_init (args_project_id b) (args_region b)) (args_action b))" for v
    unfolding main_def run_def Let_def by (rule refl)
  have pid: "project_id (c\<lparr>region := x\<rparr>) = project_id c" for c :: GCPConfig and x
    by simp
  have run_region: "run (c\<lparr>region := x\<rparr>) act = run c act" for c x act
    unfolding run_def manager_init_region main_try_body_region pid by (rule refl)
  show ?thesis
  proof (cases "parse_args argv")
    case (Inl x)
    then show ?thesis by (simp add: main_eq parse_args_region)
  next
    case (Inr a)
    let ?r = "case ro of None \<Rightarrow> ''us-central1'' | Some r \<Rightarrow> r"
    have "main ev (argv\<lparr>opt_region := ro\<rparr>) w
            = run (GCPConfig_init (args_project_id a) ?r) (args_action a)"
      using Inr by (simp add: main_eq parse_args_region)
    also have "\<dots> = run ((GCPConfig_init (args_project_id a) (args_region a))\<lparr>region := ?r\<rparr>) (args_action a)"
      using GCPConfig_init_region [of "args_project_id a" ?r "args_region a"] by simp
    also have "\<dots> = run (GCPConfig_init (args_project_id a) (args_region a)) (args_action a)"
      by (rule run_region)
    also have "\<dots> = main ev argv w"
      using Inr by (simp add: main_eq)
    finally show ?thesis .
  qed
qed

text \<open>
  C10. The region is stored in the configuration and read nowhere. Replacing it changes
  neither what \<open>create_secrets\<close> does (names, generated values and their lengths, calls,
  result), nor the image tag and the build that \<open>build_and_deploy\<close> submits, nor the
  service URL, nor any action of \<open>main\<close>; and a whole run of \<open>main\<close>, with its
  health-check URL, is the same whatever \<open>--region\<close> says. The other operations
  (\<open>check_authentication\<close>, \<open>setup_service_account\<close>, \<open>run_health_check\<close>) do not
  read the configuration at all.
\<close>

theorem region_has_no_influence:
  "create_secrets ev (config\<lparr>region := r\<rparr>) w = create_secrets ev config w
   \<and> image_tag (config\<lparr>region := r\<rparr>) = image_tag config
   \<and> build_config (config\<lparr>region := r\<rparr>) = build_config config
   \<and> build_and_deploy ev (config\<lparr>region := r\<rparr>) w = build_and_deploy ev config w
   \<and> get_service_url (config\<lparr>region := r\<rparr>) w = get_service_url config w
   \<and> main_try_body ev (config\<lparr>region := r\<rparr>) action w = main_try_body ev config action w
   \<and> main ev (argv\<lparr>opt_region := ro\<rparr>) w = main ev argv w"
  by (simp add: create_secrets_region build_and_deploy_region main_try_body_region main_region
        image_tag_def build_config_def get_service_url_region)

subsection \<open>The runs of \<open>main\<close>\<close>

lemma check_authentication_world:
  "store (snd (check_authentication ev w)) = store w
   \<and> drawn (snd (check_authentication ev w)) = drawn w
   \<and> trace (snd (check_authentication ev w)) = trace w @ [ListProjects]"
  by (simp add: check_authentication_def Let_def called_def logger_info_def logger_error_def
      split: option.splits exception.splits)

lemma check_authentication_false_log:
  "fst (check_authentication ev w) = False \<Longrightarrow>
   \<exists>m. logged (snd (check_authentication ev w)) = logged w @ [(ERROR, m)]"
  by (simp add: check_authentication_def Let_def called_def logger_info_def logger_error_def
      split: option.splits exception.splits)

lemma manager_init_ok:
  "manager_init ev config w = (Inr u, w1) \<Longrightarrow>
   w1 = w\<lparr>trace := trace w @ [AuthDefault, ClientsInit]\<rparr>"
  by (auto simp: manager_init_def Let_def called_def split: option.splits)

text \<open>
  C5. Whatever the action: when the command line parses, the manager is constructed and
  \<open>check_authentication\<close> returns false, \<open>main\<close> exits with status 1 in the world
  that \<open>check_authentication\<close> left. The only outbound calls of the run are the
  credential discovery, the client construction and the probe; the secret store is as it
  was, no random value was drawn, and the one log record is the error of the check.
\<close>

theorem main_auth_failure_exits_1:
  assumes "parse_args argv = Inr a"
    and "manager_init ev (GCPConfig_init (args_project_id a) (args_region a)) w = (Inr (), w1)"
    and "check_authentication ev w1 = (False, w2)"
  shows "main ev argv w = (Inl (SystemExit 1), w2)
       \<and> exit_status (fst (main ev argv w)) = 1
       \<and> trace w2 = trace w @ [AuthDefault, ClientsInit, ListProjects]
       \<and> store w2 = store w \<and> drawn w2 = drawn w
       \<and> (\<exists>m. logged w2 = logged w @ [(ERROR, m)])"
proof -
  have m: "main ev argv w = (Inl (SystemExit 1), w2)"
    using assms by (simp add: main_def Let_def)
  have w1: "w1 = w\<lparr>trace := trace w @ [AuthDefault, ClientsInit]\<rparr>"
    using manager_init_ok [OF assms(2)] .
  have "trace w2 = trace w1 @ [ListProjects]" "store w2 = store w1" "drawn w2 = drawn w1"
    using check_authentication_world [of ev w1] assms(3) by simp_all
  moreover have "\<exists>m. logged w2 = logged w1 @ [(ERROR, m)]"
    using check_authentication_false_log [of ev w1] assms(3) by simp
  ultimately show ?thesis using m w1 by (simp add: exit_status_def)
qed

theorem main_auth_failure_exits_1_witness:
  "exit_status (fst (main unauth_env demo_cli demo_world)) = 1
   \<and> trace (snd (main unauth_env demo_cli demo_world)) = [AuthDefault, ClientsInit, ListProjects]
   \<and> logged (snd (main unauth_env demo_cli demo_world)) = [(ERROR, NotAuthenticated)]"
proof -
  let ?a = "\<lparr>args_project_id = ''demo'', args_region = ''us-central1'', args_action = ''deploy''\<rparr>"
  let ?w1 = "demo_world\<lparr>trace := [AuthDefault, ClientsInit]\<rparr>"
  let ?w2 = "demo_world\<lparr>logged := [(ERROR, NotAuthenticated)], trace := [AuthDefault, ClientsInit, ListProjects]\<rparr>"
  have h1: "parse_args demo_cli = Inr ?a"
    by (simp add: parse_args_def demo_cli_def action_choices_def)
  have h2: "manager_init unauth_env (GCPConfig_init (args_project_id ?a) (args_region ?a)) demo_world
             = (Inr (), ?w1)"
    by (simp add: manager_init_def unauth_env_def demo_env_def called_def demo_world_def)
  have h3: "check_authentication unauth_env ?w1 = (False, ?w2)"
    by (simp add: check_authentication_def unauth_env_def demo_env_def called_def logger_error_def
          demo_world_def)
  show ?thesis
    using main_auth_failure_exits_1 [OF h1 h2 h3] by (simp add: exit_status_def)
qed

lemma build_and_deploy_world:
  "store (snd (build_and_deploy ev config w)) = store w
   \<and> drawn (snd (build_and_deploy ev config w)) = drawn w
   \<and> trace (snd (build_and_deploy ev config w))
       = trace w @ [CreateBuild (''projects/'' @ project_id config) (build_config config)]"
  by (simp add: build_and_deploy_def Let_def called_def logger_info_def logger_error_def
      split: option.splits)

text \<open>
  C6. Action \<open>deploy\<close>: when \<open>build_and_deploy\<close> returns false, \<open>main\<close> exits with
  status 1 in the world that \<open>build_and_deploy\<close> left, plus one error record. The build
  submission is the last outbound call (no sleep, no GET), and the log has no service
  URL and no health-check record.
\<close>

theorem main_deploy_build_failure_exits_1:
  assumes "parse_args argv = Inr a" and "args_action a = ''deploy''"
    and "config = GCPConfig_init (args_project_id a) (args_region a)"
    and "manager_init ev config w = (Inr (), w1)"
    and "check_authentication ev w1 = (True, w2)"
    and "build_and_deploy ev config
           (logger_info StartingDeployment (logger_info (Starting ''deploy'' (project_id config)) w2))
         = (False, w3)"
  shows "main ev argv w
           = (Inl (SystemExit 1),
              logger_error (DeploymentFailed (PyException ''Build and deployment failed'')) w3)
       \<and> exit_status (fst (main ev argv w)) = 1
       \<and> trace (snd (main ev argv w))
           = trace w2 @ [CreateBuild (''projects/'' @ project_id config) (build_config config)]
       \<and> (\<exists>e. logged (snd (main ev argv w))
              = logged w2 @
                [(INFO, Starting ''deploy'' (project_id config)), (INFO, StartingDeployment),
                 (INFO, StartingBuild), (ERROR, BuildFailed e),
                 (ERROR, DeploymentFailed (PyException ''Build and deployment failed''))])
       \<and> store (snd (main ev argv w)) = store w"
proof -
  let ?w = "logger_info StartingDeployment (logger_info (Starting ''deploy'' (project_id config)) w2)"
  have body: "main_try_body ev config ''deploy'' (logger_info (Starting ''deploy'' (project_id config)) w2)
                = (Inl (PyException ''Build and deployment failed''), w3)"
    using assms(6) by (simp add: main_try_body_def Let_def)
  have m: "main ev argv w
           = (Inl (SystemExit 1),
              logger_error (DeploymentFailed (PyException ''Build and deployment failed'')) w3)"
    using assms(1-5) body by (simp add: main_def Let_def)
  have w3: "w3 = snd (build_and_deploy ev config ?w)" using assms(6) by simp
  have tr: "trace w3 = trace w2 @ [CreateBuild (''projects/'' @ project_id config) (build_config config)]"
    unfolding w3 using build_and_deploy_world [of ev config ?w] by (simp add: logger_info_def)
  have lg: "\<exists>e. logged w3 = logged w2 @ [(INFO, Starting ''deploy'' (project_id config)),
                (INFO, StartingDeployment), (INFO, StartingBuild), (ERROR, BuildFailed e)]"
    using assms(6)
    by (auto simp: build_and_deploy_def Let_def called_def logger_info_def logger_error_def
        split: option.splits)
  have st: "store w3 = store w"
    unfolding w3 using build_and_deploy_world [of ev config ?w] manager_init_ok [OF assms(4)]
      check_authentication_world [of ev w1] assms(5)
    by (simp add: logger_info_def)
  show ?thesis using m tr lg st by (auto simp: exit_status_def logger_error_def)
qed

theorem main_deploy_build_failure_exits_1_witness:
  "exit_status (fst (main build_fails_env demo_cli demo_world)) = 1
   \<and> trace (snd (main build_fails_env demo_cli demo_world))
       = [AuthDefault, ClientsInit, ListProjects, CreateBuild ''projects/demo'' (build_config demo_config)]"
proof -
  let ?a = "\<lparr>args_project_id = ''demo'', args_region = ''us-central1'', args_action = ''deploy''\<rparr>"
  let ?c = "GCPConfig_init (args_project_id ?a) (args_region ?a)"
  let ?w1 = "demo_world\<lparr>trace := [AuthDefault, ClientsInit]\<rparr>"
  let ?w2 = "demo_world\<lparr>logged := [(INFO, AuthVerified)], trace := [AuthDefault, ClientsInit, ListProjects]\<rparr>"
  let ?w = "logger_info StartingDeployment (logger_info (Starting ''deploy'' (project_id ?c)) ?w2)"
  have h1: "parse_args demo_cli = Inr ?a"
    by (simp add: parse_args_def demo_cli_def action_choices_def)
  have h2: "args_action ?a = ''deploy''" by simp
  have h3: "?c = GCPConfig_init (args_project_id ?a) (args_region ?a)" by (rule refl)
  have h4: "manager_init build_fails_env ?c demo_world = (Inr (), ?w1)"
    by (simp add: manager_init_def build_fails_env_def demo_env_def called_def demo_world_def)
  have h5: "check_authentication build_fails_env ?w1 = (True, ?w2)"
    by (simp add: check_authentication_def build_fails_env_def demo_env_def called_def
          logger_info_def demo_world_def)
  have h6: "build_and_deploy build_fails_env ?c ?w = (False, snd (build_and_deploy build_fails_env ?c ?w))"
    by (simp add: build_and_deploy_def build_fails_env_def demo_env_def Let_def)
  have c: "?c = demo_config" by (simp add: demo_config_def)
  show ?thesis
    using main_deploy_build_failure_exits_1 [OF h1 h2 h3 h4 h5 h6, THEN conjunct2]
    by (simp add: c [symmetric] GCPConfig_init_def)
qed

lemma run_health_check_world:
  "store (snd (run_health_check ev url w)) = store w
   \<and> drawn (snd (run_health_check ev url w)) = drawn w
   \<and> trace (snd (run_health_check ev url w)) = trace w @ [Sleep 30, HttpGet (url @ ''/web/health'') 30]"
  by (cases "http_get ev (url @ ''/web/health'') 30")
     (simp_all add: run_health_check_def Let_def called_def logger_info_def logger_error_def)

text \<open>
  C7. Action \<open>deploy\<close>: when the build is submitted and \<open>run_health_check\<close> returns
  false, \<open>main\<close> returns normally, so the exit status is 0; the last log record is the
  warning; the health check's GET is the last outbound call, so nothing is undone, and
  the secret store is as it was.
\<close>

theorem main_deploy_unhealthy_exits_0:
  assumes "parse_args argv = Inr a" and "args_action a = ''deploy''"
    and "config = GCPConfig_init (args_project_id a) (args_region a)"
    and "manager_init ev config w = (Inr (), w1)"
    and "check_authentication ev w1 = (True, w2)"
    and "build_and_deploy ev config
           (logger_info StartingDeployment (logger_info (Starting ''deploy'' (project_id config)) w2))
         = (True, w3)"
    and "url = ''https://qitlalli-odoo-'' @ project_id config @ ''.run.app''"
    and "run_health_check ev url (logger_info (ServiceUrl url) w3) = (Inr False, w5)"
  shows "main ev argv w = (Inr (), logger_warning DeploymentHealthWarning w5)
       \<and> exit_status (fst (main ev argv w)) = 0
       \<and> last (logged (snd (main ev argv w))) = (WARNING, DeploymentHealthWarning)
       \<and> trace (snd (main ev argv w))
           = trace w3 @ [Sleep 30, HttpGet (url @ ''/web/health'') 30]
       \<and> trace w3 = trace w2 @ [CreateBuild (''projects/'' @ project_id config) (build_config config)]
       \<and> store (snd (main ev argv w)) = store w"
proof -
  let ?v = "logger_info (Starting ''deploy'' (project_id config)) w2"
  let ?w = "logger_info StartingDeployment ?v"
  have sn: "service_name config = ''qitlalli-odoo''"
    using assms(3) by (simp add: GCPConfig_init_def)
  have body: "main_try_body ev config ''deploy'' ?v
                = (Inr (), logger_warning DeploymentHealthWarning w5)"
    using assms(6,7,8) sn by (simp add: main_try_body_def Let_def get_service_url_def)
  have m: "main ev argv w = (Inr (), logger_warning DeploymentHealthWarning w5)"
    using assms(1-5) body by (simp add: main_def Let_def)
  have w3: "w3 = snd (build_and_deploy ev config ?w)" using assms(6) by simp
  have w5: "w5 = snd (run_health_check ev url (logger_info (ServiceUrl url) w3))"
    using assms(8) by simp
  have tr3: "trace w3 = trace w2 @ [CreateBuild (''projects/'' @ project_id config) (build_config config)]"
    unfolding w3 using build_and_deploy_world [of ev config ?w] by (simp add: logger_info_def)
  have st3: "store w3 = store w"
    unfolding w3 using build_and_deploy_world [of ev config ?w] manager_init_ok [OF assms(4)]
      check_authentication_world [of ev w1] assms(5)
    by (simp add: logger_info_def)
  have tr5: "trace w5 = trace w3 @ [Sleep 30, HttpGet (url @ ''/web/health'') 30]"
    unfolding w5 using run_health_check_world [of ev url "logger_info (ServiceUrl url) w3"]
    by (simp add: logger_info_def)
  have st5: "store w5 = store w"
    unfolding w5 using run_health_check_world [of ev url "logger_info (ServiceUrl url) w3"] st3
    by (simp add: logger_info_def)
  show ?thesis using m tr3 tr5 st5 by (simp add: exit_status_def logger_warning_def)
qed

theorem main_deploy_unhealthy_exits_0_witness:
  "exit_status (fst (main unhealthy_env demo_cli demo_world)) = 0
   \<and> last (logged (snd (main unhealthy_env demo_cli demo_world))) = (WARNING, DeploymentHealthWarning)"
proof -
  let ?a = "\<lparr>args_project_id = ''demo'', args_region = ''us-central1'', args_action = ''deploy''\<rparr>"
  let ?c = "GCPConfig_init (args_project_id ?a) (args_region ?a)"
  let ?w1 = "demo_world\<lparr>trace := [AuthDefault, ClientsInit]\<rparr>"
  let ?w2 = "demo_world\<lparr>logged := [(INFO, AuthVerified)], trace := [AuthDefault, ClientsInit, ListProjects]\<rparr>"
  let ?w = "logger_info StartingDeployment (logger_info (Starting ''deploy'' (project_id ?c)) ?w2)"
  let ?w3 = "snd (build_and_deploy unhealthy_env ?c ?w)"
  let ?url = "''https://qitlalli-odoo-'' @ project_id ?c @ ''.run.app''"
  let ?w5 = "snd (run_health_check unhealthy_env ?url (logger_info (ServiceUrl ?url) ?w3))"
  have h1: "parse_args demo_cli = Inr ?a"
    by (simp add: parse_args_def demo_cli_def action_choices_def)
  have h2: "args_action ?a = ''deploy''" by simp
  have h3: "?c = GCPConfig_init (args_project_id ?a) (args_region ?a)" by (rule refl)
  have h4: "manager_init unhealthy_env ?c demo_world = (Inr (), ?w1)"
    by (simp add: manager_init_def unhealthy_env_def demo_env_def called_def demo_world_def)
  have h5: "check_authentication unhealthy_env ?w1 = (True, ?w2)"
    by (simp add: check_authentication_def unhealthy_env_def demo_env_def called_def
          logger_info_def demo_world_def)
  have h6: "build_and_deploy unhealthy_env ?c ?w = (True, ?w3)"
    by (simp add: build_and_deploy_def unhealthy_env_def demo_env_def Let_def)
  have h7: "?url = ''https://qitlalli-odoo-'' @ project_id ?c @ ''.run.app''" by (rule refl)
  have h8: "run_health_check unhealthy_env ?url (logger_info (ServiceUrl ?url) ?w3) = (Inr False, ?w5)"
    by (simp add: run_health_check_def unhealthy_env_def demo_env_def Let_def)
  show ?thesis
    using main_deploy_unhealthy_exits_0 [OF h1 h2 h3 h4 h5 h6 h7 h8, THEN conjunct2] by simp
qed




end
